theory Spec2Isabelle
  imports Main "HOL-Library.Sublist"
begin

section \<open>Go values\<close>

text \<open>
  A Go \<^verbatim>\<open>string\<close> is a sequence of bytes and \<^verbatim>\<open>len\<close> counts bytes; HOL's
  \<^typ>\<open>string\<close> is a list of 8-bit characters, so \<^const>\<open>length\<close> is Go's \<^verbatim>\<open>len\<close>.

  A Go slice \<^verbatim>\<open>[]string\<close> is either \<^verbatim>\<open>nil\<close> or a sequence of strings. Both have
  \<^verbatim>\<open>len\<close> 0 when empty, but \<^verbatim>\<open>encoding/json\<close> writes them differently, so the model
  keeps them apart: \<open>None\<close> is the nil slice.
\<close>

type_synonym slice = "string list option"

definition len :: "slice \<Rightarrow> nat" where
  "len s = (case s of None \<Rightarrow> 0 | Some xs \<Rightarrow> length xs)"

text \<open>The status codes of \<^verbatim>\<open>net/http\<close> that the handlers use.\<close>

definition StatusOK :: int where "StatusOK = 200"
definition StatusBadRequest :: int where "StatusBadRequest = 400"
definition StatusInternalServerError :: int where "StatusInternalServerError = 500"

section \<open>encoding/json\<close>

text \<open>
  \<^verbatim>\<open>json.Marshal\<close> is modelled in two steps: the JSON value that a Go value stands for,
  and the bytes the encoder writes for a JSON value (no white space, object members in
  field order). String escaping follows the encoder of Go 1.22 with its default HTML
  escaping: bytes below 0x20 and the characters \<^verbatim>\<open>" \ < > &\<close> are escaped, invalid
  UTF-8 becomes the escape of U+FFFD, and U+2028 and U+2029 are escaped.
\<close>

datatype json = JNull | JBool bool | JString string | JArray "json list"
  | JObject "(string \<times> json) list"

definition hex :: string where
  "hex = ''0123456789abcdef''"

definition htmlSafe :: "char \<Rightarrow> bool" where
  "htmlSafe c = (32 \<le> (of_char c :: nat) \<and> (of_char c :: nat) < 128 \<and>
     c \<noteq> CHR 0x22 \<and> c \<noteq> CHR 0x26 \<and> c \<noteq> CHR 0x3C \<and> c \<noteq> CHR 0x3E \<and> c \<noteq> CHR 0x5C)"

definition escape_byte :: "char \<Rightarrow> string" where
  "escape_byte c =
     (if c = CHR 0x5C \<or> c = CHR 0x22 then [CHR 0x5C, c]
      else if c = CHR 0x08 then [CHR 0x5C, CHR ''b'']
      else if c = CHR 0x0C then [CHR 0x5C, CHR ''f'']
      else if c = CHR 0x0A then [CHR 0x5C, CHR ''n'']
      else if c = CHR 0x0D then [CHR 0x5C, CHR ''r'']
      else if c = CHR 0x09 then [CHR 0x5C, CHR ''t'']
      else [CHR 0x5C, CHR ''u'', CHR ''0'', CHR ''0'',
            hex ! ((of_char c :: nat) div 16), hex ! ((of_char c :: nat) mod 16)])"

text \<open>
  \<^verbatim>\<open>utf8.DecodeRuneInString\<close> at a byte of value 0x80 or more: \<open>Some n\<close> when the
  next \<open>n\<close> bytes are a well-formed encoding, \<open>None\<close> for Go's \<^verbatim>\<open>(RuneError, 1)\<close>.
\<close>

definition DecodeRune_size :: "nat list \<Rightarrow> nat option" where
  "DecodeRune_size bs =
     (case bs of [] \<Rightarrow> None
      | s0 # rest \<Rightarrow>
          if s0 < 0xC2 \<or> 0xF4 < s0 then None
          else
            let sz = (if s0 < 0xE0 then 2 else if s0 < 0xF0 then 3 else 4 :: nat);
                lo = (if s0 = 0xE0 then 0xA0 else if s0 = 0xF0 then 0x90 else 0x80 :: nat);
                hi = (if s0 = 0xED then 0x9F else if s0 = 0xF4 then 0x8F else 0xBF :: nat)
            in if length bs < sz then None
               else if rest ! 0 < lo \<or> hi < rest ! 0 then None
               else if sz \<le> 2 then Some 2
               else if rest ! 1 < 0x80 \<or> 0xBF < rest ! 1 then None
               else if sz \<le> 3 then Some 3
               else if rest ! 2 < 0x80 \<or> 0xBF < rest ! 2 then None
               else Some 4)"

fun appendString :: "string \<Rightarrow> string" where
  "appendString [] = []"
| "appendString (c # cs) =
     (if (of_char c :: nat) < 0x80 then
        (if htmlSafe c then c # appendString cs else escape_byte c @ appendString cs)
      else
        (case DecodeRune_size (map of_char (take 4 (c # cs))) of
           None \<Rightarrow> [CHR 0x5C, CHR ''u'', CHR ''f'', CHR ''f'', CHR ''f'', CHR ''d''] @ appendString cs
         | Some n \<Rightarrow>
             if c = CHR 0xE2 \<and> take 2 cs = [CHR 0x80, CHR 0xA8] then
               [CHR 0x5C, CHR ''u'', CHR ''2'', CHR ''0'', CHR ''2'', CHR ''8''] @ appendString (drop 2 cs)
             else if c = CHR 0xE2 \<and> take 2 cs = [CHR 0x80, CHR 0xA9] then
               [CHR 0x5C, CHR ''u'', CHR ''2'', CHR ''0'', CHR ''2'', CHR ''9''] @ appendString (drop 2 cs)
             else c # take (n - 1) cs @ appendString (drop (n - 1) cs)))"

definition encodeString :: "string \<Rightarrow> string" where
  "encodeString s = [CHR 0x22] @ appendString s @ [CHR 0x22]"

fun join_comma :: "string list \<Rightarrow> string" where
  "join_comma [] = []"
| "join_comma [x] = x"
| "join_comma (x # y # ys) = x @ [CHR '',''] @ join_comma (y # ys)"

fun encode :: "json \<Rightarrow> string" where
  "encode JNull = ''null''"
| "encode (JBool b) = (if b then ''true'' else ''false'')"
| "encode (JString s) = encodeString s"
| "encode (JArray vs) = [CHR ''[''] @ join_comma (map encode vs) @ [CHR '']'']"
| "encode (JObject kvs) =
     [CHR ''{''] @ join_comma (map (\<lambda>(k, v). encodeString k @ [CHR '':''] @ encode v) kvs) @ [CHR ''}'']"

text \<open>
  The two response structs. Neither has field tags, so the encoder names the members
  after the exported Go fields, \<^verbatim>\<open>Success\<close> and \<^verbatim>\<open>Result\<close>; a nil slice is written
  \<^verbatim>\<open>null\<close>. The fields are given in the order of the struct declaration.
\<close>

datatype OutputArray = OutputArray bool slice

datatype OutputString = OutputString bool string

fun json_of_OutputArray :: "OutputArray \<Rightarrow> json" where
  "json_of_OutputArray (OutputArray success result) =
     JObject [(''Success'', JBool success),
              (''Result'', case result of None \<Rightarrow> JNull | Some xs \<Rightarrow> JArray (map JString xs))]"

fun json_of_OutputString :: "OutputString \<Rightarrow> json" where
  "json_of_OutputString (OutputString success result) =
     JObject [(''Success'', JBool success), (''Result'', JString result)]"

definition Marshal_OutputArray :: "OutputArray \<Rightarrow> string" where
  "Marshal_OutputArray v = encode (json_of_OutputArray v)"

definition Marshal_OutputString :: "OutputString \<Rightarrow> string" where
  "Marshal_OutputString v = encode (json_of_OutputString v)"

section \<open>getResults\<close>

text \<open>
  The lookup function is a Go function value, \<^verbatim>\<open>func(string) []string\<close>, supplied by the
  word data provider. Calling it is an effect on the provider, so it is modelled as a
  function that also takes and returns the provider's state \<open>'w\<close> (what the state holds
  is the provider's business: a call counter, a cache, nothing). \<^verbatim>\<open>getResults\<close> threads
  that state through the one call it makes.
\<close>

type_synonym 'w lookup = "string \<Rightarrow> 'w \<Rightarrow> slice \<times> 'w"

definition getResults :: "string \<Rightarrow> 'w lookup \<Rightarrow> 'w \<Rightarrow> (string \<times> int) \<times> 'w" where
  "getResults input function w =
     (if input = [] \<or> length input > 13 then
        ((Marshal_OutputString (OutputString False ''Invalid input''), StatusBadRequest), w)
      else
        (let (result, w') = function input w
         in ((Marshal_OutputArray (OutputArray (len result > 0) result), StatusOK), w')))"

text \<open>
  The parameter of \<^verbatim>\<open>getResults\<close> has the type \<^verbatim>\<open>func(string) []string\<close>, and a value of
  that type need not be a function that returns: it can be nil, and a call can panic.
  \<open>getResults_func\<close> is \<^verbatim>\<open>getResults\<close> over every such value (\<open>Inl\<close> is the panic
  with which it then ends; calling a nil function is a nil dereference). The handlers
  pass the lookups of a loaded word list, which are taken to return; \<open>returning\<close>
  embeds such a lookup, and on it the two definitions agree.
\<close>

datatype 'w func = nil_func | func "string \<Rightarrow> 'w \<Rightarrow> (string + slice) \<times> 'w"

definition returning :: "'w lookup \<Rightarrow> 'w func" where
  "returning g = func (\<lambda>input w. (Inr (fst (g input w)), snd (g input w)))"

definition getResults_func ::
  "string \<Rightarrow> 'w func \<Rightarrow> 'w \<Rightarrow> (string + string \<times> int) \<times> 'w" where
  "getResults_func input function w =
     (if input = [] \<or> length input > 13 then
        (Inr (Marshal_OutputString (OutputString False ''Invalid input''), StatusBadRequest), w)
      else
        (case function of
           nil_func \<Rightarrow> (Inl ''invalid memory address or nil pointer dereference'', w)
         | func f \<Rightarrow>
             (case f input w of
                (Inl p, w') \<Rightarrow> (Inl p, w')
              | (Inr result, w') \<Rightarrow>
                  (Inr (Marshal_OutputArray (OutputArray (len result > 0) result), StatusOK),
                   w'))))"

section \<open>net/http: requests and response writers\<close>

text \<open>
  Of a request the handlers read the remote address, the method, the request URI and
  the parsed form (\<^verbatim>\<open>url.Values\<close>: every key has a list of values, empty when the key is
  absent). \<^verbatim>\<open>FormValue\<close> is the first value of the key, or the empty string.
\<close>

record Request =
  RemoteAddr :: string
  Method :: string
  RequestURI :: string
  Form :: "string \<Rightarrow> string list"

definition FormValue :: "Request \<Rightarrow> string \<Rightarrow> string" where
  "FormValue r key = (case Form r key of [] \<Rightarrow> [] | v # _ \<Rightarrow> v)"

text \<open>
  A response writer holds the header map as the handler fills it, the status once it
  is written, and the body written so far. \<^verbatim>\<open>WriteHeader\<close> takes effect once;
  \<^verbatim>\<open>Write\<close> before any \<^verbatim>\<open>WriteHeader\<close> sends status 200 first. What the server
  adds on the wire by itself (the date, the length, a sniffed content type when the
  handler set none) is not part of the record.
\<close>

record ResponseWriter =
  header :: "(string \<times> string) list"
  wroteHeader :: bool
  status :: int
  body :: string

definition new_ResponseWriter :: ResponseWriter where
  "new_ResponseWriter = \<lparr>header = [], wroteHeader = False, status = 0, body = []\<rparr>"

definition Header_Add :: "string \<Rightarrow> string \<Rightarrow> ResponseWriter \<Rightarrow> ResponseWriter" where
  "Header_Add k v w = w\<lparr>header := header w @ [(k, v)]\<rparr>"

definition WriteHeader :: "int \<Rightarrow> ResponseWriter \<Rightarrow> ResponseWriter" where
  "WriteHeader code w = (if wroteHeader w then w else w\<lparr>wroteHeader := True, status := code\<rparr>)"

definition Write :: "string \<Rightarrow> ResponseWriter \<Rightarrow> ResponseWriter" where
  "Write bs w =
     (let w' = (if wroteHeader w then w else WriteHeader StatusOK w)
      in w'\<lparr>body := body w' @ bs\<rparr>)"

section \<open>The process state\<close>

text \<open>
  The state of the running process that the code reads and writes: the global
  \<^verbatim>\<open>templates\<close> (\<open>None\<close> is the nil pointer before the first parse), the lines written
  through package \<^verbatim>\<open>log\<close> (the formatted message, without the time stamp that the logger
  puts in front), the state of the word data provider, and the goroutines started with
  \<^verbatim>\<open>go\<close>, in the order they were started.
\<close>

datatype task = Reloader | Listener

record ('t, 'w) process =
  templates :: "'t option"
  logged :: "string list"
  provider :: 'w
  tasks :: "task list"

definition log_Print :: "string \<Rightarrow> ('t, 'w) process \<Rightarrow> ('t, 'w) process" where
  "log_Print line s = s\<lparr>logged := logged s @ [line]\<rparr>"

definition go :: "task \<Rightarrow> ('t, 'w) process \<Rightarrow> ('t, 'w) process" where
  "go t s = s\<lparr>tasks := tasks s @ [t]\<rparr>"

text \<open>
  The signals that matter here, with their numbers. \<^verbatim>\<open>os.Interrupt\<close> is SIGINT and
  \<^verbatim>\<open>os.Kill\<close> is SIGKILL. Package \<^verbatim>\<open>os/signal\<close> relays a signal to the channels
  registered for it with \<^verbatim>\<open>signal.Notify\<close>; SIGKILL cannot be caught, whatever is
  registered. A signal of this list that is not relayed ends the process at once.
\<close>

datatype os_signal = SIGHUP | SIGINT | SIGKILL | SIGTERM

fun signal_number :: "os_signal \<Rightarrow> int" where
  "signal_number SIGHUP = 1"
| "signal_number SIGINT = 2"
| "signal_number SIGKILL = 9"
| "signal_number SIGTERM = 15"

definition os_Interrupt :: os_signal where "os_Interrupt = SIGINT"
definition os_Kill :: os_signal where "os_Kill = SIGKILL"

definition relayed :: "os_signal list \<Rightarrow> os_signal \<Rightarrow> bool" where
  "relayed registered sig = (sig \<in> set registered \<and> sig \<noteq> SIGKILL)"

text \<open>\<^verbatim>\<open>time.Second\<close>, a \<^verbatim>\<open>time.Duration\<close>, in nanoseconds.\<close>

definition time_Second :: int where "time_Second = 1000000000"

text \<open>
  How a function or the process ends: it returns, it calls \<^verbatim>\<open>os.Exit\<close> (as
  \<^verbatim>\<open>log.Fatalf\<close> does, with status 1), it panics, it is killed by a signal, or it
  waits on a channel on which nothing more arrives. A panic that no one recovers ends
  the whole process with exit status 2, whichever goroutine it happens in; no function
  of this program recovers. A process killed by a signal has no exit code of its own;
  its status is given as a shell reports it, 128 plus the number of the signal.
\<close>

datatype outcome = Return | Exit int | Panic string | Killed os_signal | Wait

fun exit_status :: "outcome \<Rightarrow> int option" where
  "exit_status Return = Some 0"
| "exit_status (Exit n) = Some n"
| "exit_status (Panic e) = Some 2"
| "exit_status (Killed sig) = Some (128 + signal_number sig)"
| "exit_status Wait = None"

section \<open>The environment of the process\<close>

text \<open>
  What the process gets from outside is collected in one record: the values of the
  flags \<^verbatim>\<open>wordList\<close> and \<^verbatim>\<open>templateDirectory\<close>, and the answers of the libraries
  and of the operating system. \<open>'fs\<close> is the
  state of the file system, \<open>'t\<close> a parsed template set.
  \<^item> \<open>envflag_Parse\<close>: the error of \<^verbatim>\<open>envflag.Parse()\<close>, if any;
  \<^item> \<open>filepath_Join\<close>: \<^verbatim>\<open>filepath.Join\<close>;
  \<^item> \<open>template_ParseFiles\<close>: \<^verbatim>\<open>template.ParseFiles\<close> on a file system, an error
    message or the parsed set;
  \<^item> \<open>fsnotify_NewWatcher\<close>: the error of \<^verbatim>\<open>fsnotify.NewWatcher()\<close>, if any;
  \<^item> \<open>watcher_Add\<close>: the error of \<^verbatim>\<open>watcher.Add\<close> on a path, if any;
  \<^item> \<open>incoming_signal\<close>: the signal that the operating system sends to the process
    while it serves, if any;
  \<^item> \<open>server_Shutdown\<close>: the error of \<^verbatim>\<open>server.Shutdown(ctx)\<close>, if any, for a context
    that times out after the given duration.
\<close>

record ('t, 'fs) env =
  wordList :: string
  templateDirectory :: string
  envflag_Parse :: "string option"
  filepath_Join :: "string list \<Rightarrow> string"
  template_ParseFiles :: "'fs \<Rightarrow> string list \<Rightarrow> string + 't"
  fsnotify_NewWatcher :: "string option"
  watcher_Add :: "string \<Rightarrow> string option"
  incoming_signal :: "os_signal option"
  server_Shutdown :: "int \<Rightarrow> string option"

section \<open>The lookup handlers\<close>

text \<open>
  The word data provider (package \<^verbatim>\<open>kowalski\<close>) is outside the repository. Its three
  operations are parameters: \<^verbatim>\<open>LoadWords\<close> returns an error message or a handle \<open>'h\<close>
  on the loaded word list, and \<^verbatim>\<open>Anagrams\<close> and \<^verbatim>\<open>Match\<close> are the lookups of a handle.
  Each takes and returns the provider's state. The handlers load the word list from
  the path of the flag \<^verbatim>\<open>wordList\<close> on every request.
\<close>

record ('h, 'w) kowalski =
  LoadWords :: "string \<Rightarrow> 'w \<Rightarrow> (string + 'h) \<times> 'w"
  Anagrams :: "'h \<Rightarrow> 'w lookup"
  Match :: "'h \<Rightarrow> 'w lookup"

type_synonym ('t, 'w) handler =
  "ResponseWriter \<Rightarrow> Request \<Rightarrow> ('t, 'w) process \<Rightarrow> ResponseWriter \<times> ('t, 'w) process"

definition anagramHandler :: "('h, 'w) kowalski \<Rightarrow> ('t, 'fs) env \<Rightarrow> ('t, 'w) handler" where
  "anagramHandler K env writer request s =
     (let input = FormValue request ''input'';
          (r, w1) = LoadWords K (wordList env) (provider s)
      in case r of
           Inl err \<Rightarrow>
             (Write ''Unable to load wordlist'' (WriteHeader StatusInternalServerError writer),
              log_Print (''Unable to load words: '' @ err) (s\<lparr>provider := w1\<rparr>))
         | Inr words \<Rightarrow>
             (let writer1 = Header_Add ''Content-Type'' ''application/json'' writer;
                  ((outputBytes, outputStatus), w2) = getResults input (Anagrams K words) w1
              in (Write outputBytes (WriteHeader outputStatus writer1), s\<lparr>provider := w2\<rparr>)))"

definition matchHandler :: "('h, 'w) kowalski \<Rightarrow> ('t, 'fs) env \<Rightarrow> ('t, 'w) handler" where
  "matchHandler K env writer request s =
     (let input = FormValue request ''input'';
          (r, w1) = LoadWords K (wordList env) (provider s)
      in case r of
           Inl err \<Rightarrow>
             (Write ''Unable to load wordlist'' (WriteHeader StatusInternalServerError writer),
              log_Print (''Unable to load words: '' @ err) (s\<lparr>provider := w1\<rparr>))
         | Inr words \<Rightarrow>
             (let writer1 = Header_Add ''Content-Type'' ''application/json'' writer;
                  ((outputBytes, outputStatus), w2) = getResults input (Match K words) w1
              in (Write outputBytes (WriteHeader outputStatus writer1), s\<lparr>provider := w2\<rparr>)))"

section \<open>The access log\<close>

text \<open>
  \<^verbatim>\<open>requestLogger\<close> wraps the handler of the whole server. The two programs of the
  repository differ in the format only: \<^verbatim>\<open>"%s\t\t%s\t\t%s\t"\<close> in the single word list
  program, \<^verbatim>\<open>"%s  \t%s  \t%s"\<close> in \<^verbatim>\<open>main.go\<close> (suffix \<open>_v2\<close> here and below).
\<close>

definition tab :: char where
  "tab = CHR 0x09"

definition requestLogger :: "('t, 'w) handler \<Rightarrow> ('t, 'w) handler" where
  "requestLogger targetMux w r s =
     (let (w', s') = targetMux w r s;
          requesterIP = RemoteAddr r
      in (w', log_Print (requesterIP @ [tab, tab] @ Method r @ [tab, tab] @ RequestURI r @ [tab]) s'))"

definition requestLogger_v2 :: "('t, 'w) handler \<Rightarrow> ('t, 'w) handler" where
  "requestLogger_v2 targetMux w r s =
     (let (w', s') = targetMux w r s;
          requesterIP = RemoteAddr r
      in (w', log_Print (requesterIP @ ''  '' @ [tab] @ Method r @ ''  '' @ [tab] @ RequestURI r) s'))"

section \<open>Templates, the watcher and the life of the process\<close>

text \<open>\<^verbatim>\<open>template.Must\<close> panics with the error when there is one (\<open>Inl\<close> is the panic).\<close>

definition template_Must :: "string + 't \<Rightarrow> string + 't" where
  "template_Must r = (case r of Inl err \<Rightarrow> Inl err | Inr t \<Rightarrow> Inr t)"

text \<open>
  \<^verbatim>\<open>reloadTemplates\<close> assigns the global only when \<^verbatim>\<open>template.Must\<close> returns: a
  panic leaves the state as it was. The single word list program parses three files,
  \<^verbatim>\<open>main.go\<close> one.
\<close>

definition template_files :: "('t, 'fs) env \<Rightarrow> string list" where
  "template_files env =
     [filepath_Join env [templateDirectory env, ''main.css''],
      filepath_Join env [templateDirectory env, ''index.html''],
      filepath_Join env [templateDirectory env, ''main.js'']]"

definition template_files_v2 :: "('t, 'fs) env \<Rightarrow> string list" where
  "template_files_v2 env = [filepath_Join env [templateDirectory env, ''index.html'']]"

definition reloadTemplates ::
  "('t, 'fs) env \<Rightarrow> 'fs \<Rightarrow> ('t, 'w) process \<Rightarrow> string + ('t, 'w) process" where
  "reloadTemplates env fs s =
     (case template_Must (template_ParseFiles env fs (template_files env)) of
        Inl p \<Rightarrow> Inl p
      | Inr t \<Rightarrow> Inr (s\<lparr>templates := Some t\<rparr>))"

definition reloadTemplates_v2 ::
  "('t, 'fs) env \<Rightarrow> 'fs \<Rightarrow> ('t, 'w) process \<Rightarrow> string + ('t, 'w) process" where
  "reloadTemplates_v2 env fs s =
     (case template_Must (template_ParseFiles env fs (template_files_v2 env)) of
        Inl p \<Rightarrow> Inl p
      | Inr t \<Rightarrow> Inr (s\<lparr>templates := Some t\<rparr>))"

text \<open>
  \<^verbatim>\<open>templateChanges\<close> is the same text in both programs. It returns early only when
  the watcher cannot be created; after a failed \<^verbatim>\<open>watcher.Add\<close> it logs and goes on to
  start the goroutine.
\<close>

definition templateChanges :: "('t, 'fs) env \<Rightarrow> ('t, 'w) process \<Rightarrow> ('t, 'w) process" where
  "templateChanges env s =
     (case fsnotify_NewWatcher env of
        Some err \<Rightarrow> log_Print ''Unable to create watcher'' s
      | None \<Rightarrow>
          (let s1 = (case watcher_Add env (filepath_Join env [''./templates'']) of
                       Some err \<Rightarrow> log_Print ''Unable to watch template folder'' s
                     | None \<Rightarrow> s)
           in go Reloader s1))"

text \<open>
  \<^verbatim>\<open>templateReloader\<close> loops over a \<^verbatim>\<open>select\<close> on the two channels of the watcher.
  The list is what the successive \<^verbatim>\<open>select\<close>s receive: an event (with the file system
  as it is when the reload then runs), an error, or the zero value of a closed channel.
  When the list is used up the goroutine waits for the next item. The loop is the same
  text in both programs; it calls the program's own \<^verbatim>\<open>reloadTemplates\<close>, which is the
  first argument here.
\<close>

datatype 'fs received = Events_recv 'fs | Events_closed | Errors_recv string | Errors_closed

fun templateReloader ::
  "('fs \<Rightarrow> ('t, 'w) process \<Rightarrow> string + ('t, 'w) process) \<Rightarrow> 'fs received list \<Rightarrow>
     ('t, 'w) process \<Rightarrow> outcome \<times> ('t, 'w) process" where
  "templateReloader reload [] s = (Wait, s)"
| "templateReloader reload (Events_recv fs # rest) s =
     (case reload fs s of
        Inl p \<Rightarrow> (Panic p, s)
      | Inr s' \<Rightarrow> templateReloader reload rest s')"
| "templateReloader reload (Events_closed # rest) s = (Return, s)"
| "templateReloader reload (Errors_recv err # rest) s =
     templateReloader reload rest (log_Print (''error: '' @ err) s)"
| "templateReloader reload (Errors_closed # rest) s = (Return, s)"

text \<open>
  \<^verbatim>\<open>main\<close> of the single word list program, up to the point where the process ends.
  The requests served between \<^verbatim>\<open>ListenAndServe\<close> and the signal are not part of it.
  Both programs register the channel \<^verbatim>\<open>stop\<close> with
  \<^verbatim>\<open>signal.Notify(stop, os.Interrupt, os.Kill)\<close> and give \<^verbatim>\<open>Shutdown\<close> a context with a
  timeout of \<^verbatim>\<open>5*time.Second\<close>. \<^verbatim>\<open>main\<close> goes on from \<^verbatim>\<open><-stop\<close> only for a signal that
  is relayed to the channel.
\<close>

definition main :: "('t, 'fs) env \<Rightarrow> 'fs \<Rightarrow> ('t, 'w) process \<Rightarrow> outcome \<times> ('t, 'w) process" where
  "main env fs s =
     (case envflag_Parse env of
        Some err \<Rightarrow> (Exit 1, log_Print (''Unable to parse flags: '' @ err) s)
      | None \<Rightarrow>
          (case reloadTemplates env fs s of
             Inl p \<Rightarrow> (Panic p, s)
           | Inr s1 \<Rightarrow>
               (let s2 = templateChanges env s1;
                    s3 = log_Print ''Starting server.'' s2;
                    s4 = go Listener s3
                in case incoming_signal env of
                     None \<Rightarrow> (Wait, s4)
                   | Some sig \<Rightarrow>
                       if \<not> relayed [os_Interrupt, os_Kill] sig then (Killed sig, s4)
                       else (case server_Shutdown env (5 * time_Second) of
                               Some err \<Rightarrow>
                                 (Exit 1, log_Print (''Unable to shutdown: '' @ err) s4)
                             | None \<Rightarrow> (Return, log_Print ''Finishing server.'' s4)))))"

text \<open>
  \<^verbatim>\<open>main\<close> of \<^verbatim>\<open>main.go\<close>. The functions \<^verbatim>\<open>downloadFlags\<close> and \<^verbatim>\<open>loadWords\<close> are in
  files of the repository that are not at hand; they are parameters, taken to return,
  and to act on the word data only (\<^verbatim>\<open>loadWords\<close> gives the global \<^verbatim>\<open>words\<close> its value).
\<close>

definition main_v2 ::
  "('t, 'fs) env \<Rightarrow> bool \<Rightarrow> ('w \<Rightarrow> 'w) \<Rightarrow> (string \<Rightarrow> 'w \<Rightarrow> 'w) \<Rightarrow> 'fs \<Rightarrow> ('t, 'w) process \<Rightarrow>
     outcome \<times> ('t, 'w) process" where
  "main_v2 env download downloadFlags loadWords fs s =
     (case envflag_Parse env of
        Some err \<Rightarrow> (Exit 1, log_Print (''Unable to parse flags: '' @ err) s)
      | None \<Rightarrow>
          if download then (Return, s\<lparr>provider := downloadFlags (provider s)\<rparr>)
          else
            (let sa = log_Print ''Loading wordlist.'' s;
                 sb = sa\<lparr>provider := loadWords (wordList env) (provider sa)\<rparr>;
                 sc = log_Print ''Loading templates.'' sb
             in case reloadTemplates_v2 env fs sc of
                  Inl p \<Rightarrow> (Panic p, sc)
                | Inr s1 \<Rightarrow>
                    (let s2 = templateChanges env s1;
                         s3 = log_Print ''Starting server.'' s2;
                         s4 = go Listener s3
                     in case incoming_signal env of
                          None \<Rightarrow> (Wait, s4)
                        | Some sig \<Rightarrow>
                            if \<not> relayed [os_Interrupt, os_Kill] sig then (Killed sig, s4)
                            else (case server_Shutdown env (5 * time_Second) of
                                    Some err \<Rightarrow>
                                      (Exit 1, log_Print (''Unable to shutdown: '' @ err) s4)
                                  | None \<Rightarrow> (Return, log_Print ''Finishing server.'' s4)))))"

section \<open>A provider and an environment to run the model on\<close>

text \<open>
  The server calls a handler with a fresh response writer; the response is the writer
  as the handler leaves it.
\<close>

definition serve ::
  "('t, 'w) handler \<Rightarrow> Request \<Rightarrow> ('t, 'w) process \<Rightarrow> ResponseWriter \<times> ('t, 'w) process" where
  "serve h r s = h new_ResponseWriter r s"

text \<open>
  A provider that counts the calls made to it (its state is the counter), knows one
  word list file and answers from a table.
\<close>

definition counting_kowalski :: "(unit, nat) kowalski" where
  "counting_kowalski =
     \<lparr>LoadWords = (\<lambda>path n.
        (if path = ''/app/wordlist.txt'' then Inr ()
         else Inl (''open '' @ path @ '': no such file or directory''), Suc n)),
      Anagrams = (\<lambda>h input n.
        (if input = ''listen'' then Some [''silent'', ''enlist''] else None, Suc n)),
      Match = (\<lambda>h input n.
        (if input = ''s?lent'' then Some [''silent''] else Some [], Suc n))\<rparr>"

definition get_request :: "string \<Rightarrow> string \<Rightarrow> Request" where
  "get_request uri input =
     \<lparr>RemoteAddr = ''192.0.2.7:50314'', Method = ''GET'', RequestURI = uri,
      Form = (\<lambda>key. if key = ''input'' then [input] else [])\<rparr>"

definition idle :: "(string list, nat) process" where
  "idle = \<lparr>templates = None, logged = [], provider = 0, tasks = []\<rparr>"

text \<open>A stand-in for \<^verbatim>\<open>loadWords\<close> of \<^verbatim>\<open>main.go\<close> on the same counter.\<close>

definition counting_loadWords :: "string \<Rightarrow> nat \<Rightarrow> nat" where
  "counting_loadWords path n = Suc n"

text \<open>
  An environment over a file system given as a list of paths with their contents. Its
  \<open>template_ParseFiles\<close> fails on the first path that is missing and otherwise returns
  the contents; nothing else fails in \<open>plain_env\<close>, the signal that arrives is SIGINT,
  and \<^verbatim>\<open>Shutdown\<close> returns no error.
\<close>

fun join_slash :: "string list \<Rightarrow> string" where
  "join_slash [] = []"
| "join_slash [x] = x"
| "join_slash (x # y # ys) = x @ [CHR ''/''] @ join_slash (y # ys)"

definition parse_present :: "(string \<times> string) list \<Rightarrow> string list \<Rightarrow> string + string list" where
  "parse_present fs paths =
     (case filter (\<lambda>p. map_of fs p = None) paths of
        [] \<Rightarrow> Inr (List.map_filter (map_of fs) paths)
      | p # _ \<Rightarrow> Inl (''open '' @ p @ '': no such file or directory''))"

definition plain_env :: "(string list, (string \<times> string) list) env" where
  "plain_env =
     \<lparr>wordList = ''/app/wordlist.txt'', templateDirectory = ''/app/templates'',
      envflag_Parse = None, filepath_Join = join_slash, template_ParseFiles = parse_present,
      fsnotify_NewWatcher = None, watcher_Add = (\<lambda>path. None),
      incoming_signal = Some SIGINT, server_Shutdown = (\<lambda>timeout. None)\<rparr>"

definition three_files :: "(string \<times> string) list" where
  "three_files =
     [(''/app/templates/main.css'', ''body {}''),
      (''/app/templates/index.html'', ''<html></html>''),
      (''/app/templates/main.js'', ''// js'')]"

definition no_index :: "(string \<times> string) list" where
  "no_index = [(''/app/templates/main.css'', ''body {}''), (''/app/templates/main.js'', ''// js'')]"

text \<open>
  Three environments in which one thing fails: the word list file is missing, the
  watcher cannot be created, the template directory cannot be watched.
\<close>

definition no_wordlist_env :: "(string list, (string \<times> string) list) env" where
  "no_wordlist_env = plain_env\<lparr>wordList := ''/missing.txt''\<rparr>"

definition no_watcher_env :: "(string list, (string \<times> string) list) env" where
  "no_watcher_env = plain_env\<lparr>fsnotify_NewWatcher := Some ''too many open files''\<rparr>"

definition unwatchable_env :: "(string list, (string \<times> string) list) env" where
  "unwatchable_env = plain_env\<lparr>watcher_Add := (\<lambda>path. Some ''no such file or directory'')\<rparr>"

text \<open>
  Environments that differ from \<open>plain_env\<close> in the signal that arrives, and one in
  which \<^verbatim>\<open>Shutdown\<close> runs into a deadline of less than ten seconds.
\<close>

definition sigterm_env :: "(string list, (string \<times> string) list) env" where
  "sigterm_env = plain_env\<lparr>incoming_signal := Some SIGTERM\<rparr>"

definition sigkill_env :: "(string list, (string \<times> string) list) env" where
  "sigkill_env = plain_env\<lparr>incoming_signal := Some SIGKILL\<rparr>"

definition slow_drain_env :: "(string list, (string \<times> string) list) env" where
  "slow_drain_env =
     plain_env\<lparr>server_Shutdown :=
       (\<lambda>timeout. if timeout < 10 * time_Second then Some ''context deadline exceeded''
                  else None)\<rparr>"

text \<open>
  A lookup whose answer depends on the provider's state: it finds a word on every
  other call.
\<close>

definition flip_lookup :: "nat lookup" where
  "flip_lookup input n = (if even n then Some [''ab''] else None, Suc n)"

section \<open>Facts about the encoder, getResults and the handlers\<close>

lemma encodeString_Success: \<open>encodeString ''Success'' = ''"Success"''\<close>
  by (simp add: encodeString_def htmlSafe_def)

lemma encodeString_Result: \<open>encodeString ''Result'' = ''"Result"''\<close>
  by (simp add: encodeString_def htmlSafe_def)

lemma Marshal_invalid_input:
  \<open>Marshal_OutputString (OutputString False ''Invalid input'') =
     ''{"Success":false,"Result":"Invalid input"}''\<close>
  by (simp add: Marshal_OutputString_def encodeString_def htmlSafe_def)

lemma Marshal_OutputArray_bytes:
  \<open>Marshal_OutputArray (OutputArray b r) =
     ''{"Success":'' @ (if b then ''true'' else ''false'') @ '',"Result":'' @
     (case r of None \<Rightarrow> ''null''
      | Some xs \<Rightarrow> ''['' @ join_comma (map encodeString xs) @ '']'') @ ''}''\<close>
  by (cases r)
    (simp_all add: Marshal_OutputArray_def encodeString_Success encodeString_Result comp_def)

lemma encode_object_nonempty: "encode (JObject members) \<noteq> []"
  by simp

lemma getResults_invalid:
  \<open>input = [] \<or> 13 < length input \<Longrightarrow>
     getResults input function w =
       ((''{"Success":false,"Result":"Invalid input"}'', 400), w)\<close>
  by (simp add: getResults_def Marshal_invalid_input StatusBadRequest_def)

lemma getResults_valid:
  "input \<noteq> [] \<Longrightarrow> length input \<le> 13 \<Longrightarrow>
     getResults input function w =
       ((Marshal_OutputArray
           (OutputArray (0 < len (fst (function input w))) (fst (function input w))), 200),
        snd (function input w))"
  by (simp add: getResults_def StatusOK_def split: prod.splits)

lemma anagramHandler_loaded:
  "LoadWords K (wordList env) (provider s) = (Inr words, w1) \<Longrightarrow>
     serve (anagramHandler K env) request s =
       (\<lparr>header = [(''Content-Type'', ''application/json'')], wroteHeader = True,
          status = snd (fst (getResults (FormValue request ''input'') (Anagrams K words) w1)),
          body = fst (fst (getResults (FormValue request ''input'') (Anagrams K words) w1))\<rparr>,
        s\<lparr>provider := snd (getResults (FormValue request ''input'') (Anagrams K words) w1)\<rparr>)"
  by (simp add: serve_def anagramHandler_def Let_def new_ResponseWriter_def Header_Add_def
      WriteHeader_def Write_def split: prod.splits)

lemma matchHandler_loaded:
  "LoadWords K (wordList env) (provider s) = (Inr words, w1) \<Longrightarrow>
     serve (matchHandler K env) request s =
       (\<lparr>header = [(''Content-Type'', ''application/json'')], wroteHeader = True,
          status = snd (fst (getResults (FormValue request ''input'') (Match K words) w1)),
          body = fst (fst (getResults (FormValue request ''input'') (Match K words) w1))\<rparr>,
        s\<lparr>provider := snd (getResults (FormValue request ''input'') (Match K words) w1)\<rparr>)"
  by (simp add: serve_def matchHandler_def Let_def new_ResponseWriter_def Header_Add_def
      WriteHeader_def Write_def split: prod.splits)

lemma anagramHandler_load_failed:
  "LoadWords K (wordList env) (provider s) = (Inl err, w1) \<Longrightarrow>
     serve (anagramHandler K env) request s =
       (\<lparr>header = [], wroteHeader = True, status = 500, body = ''Unable to load wordlist''\<rparr>,
        s\<lparr>provider := w1, logged := logged s @ [''Unable to load words: '' @ err]\<rparr>)"
  by (simp add: serve_def anagramHandler_def Let_def new_ResponseWriter_def
      WriteHeader_def Write_def log_Print_def StatusInternalServerError_def)

lemma matchHandler_load_failed:
  "LoadWords K (wordList env) (provider s) = (Inl err, w1) \<Longrightarrow>
     serve (matchHandler K env) request s =
       (\<lparr>header = [], wroteHeader = True, status = 500, body = ''Unable to load wordlist''\<rparr>,
        s\<lparr>provider := w1, logged := logged s @ [''Unable to load words: '' @ err]\<rparr>)"
  by (simp add: serve_def matchHandler_def Let_def new_ResponseWriter_def
      WriteHeader_def Write_def log_Print_def StatusInternalServerError_def)

text \<open>The counting provider and the sample requests, evaluated once.\<close>

lemma counting_load_plain:
  "LoadWords counting_kowalski (wordList plain_env) (provider idle) = (Inr (), 1)"
  by (simp add: counting_kowalski_def plain_env_def idle_def)

lemma counting_load_missing:
  "LoadWords counting_kowalski (wordList no_wordlist_env) (provider idle) =
     (Inl ''open /missing.txt: no such file or directory'', 1)"
  by (simp add: counting_kowalski_def no_wordlist_env_def plain_env_def idle_def)

lemma FormValue_get_request: "FormValue (get_request uri input) ''input'' = input"
  by (simp add: FormValue_def get_request_def)

section \<open>Invalid input (C1)\<close>

text \<open>
  C1, as the handlers have it: a request to \<^verbatim>\<open>/anagram\<close> or \<^verbatim>\<open>/match\<close> whose \<^verbatim>\<open>input\<close>
  has length 0 or at least 14 is answered with status 400 and the body
  \<^verbatim>\<open>{"Success":false,"Result":"Invalid input"}\<close>, provided the word list loads. The
  handlers load the word list before \<^verbatim>\<open>getResults\<close> looks at the input, so a failed load
  is answered first (with 500, see C4). \<^verbatim>\<open>getResults\<close> itself returns that body and 400
  for every such input, whatever the lookup function.
\<close>

theorem invalid_input_is_bad_request:
  assumes \<open>length (FormValue request ''input'') = 0 \<or> 14 \<le> length (FormValue request ''input'')\<close>
    and \<open>fst (LoadWords K (wordList env) (provider s)) = Inr words\<close>
  shows \<open>fst (serve (anagramHandler K env) request s) =
           \<lparr>header = [(''Content-Type'', ''application/json'')], wroteHeader = True,
            status = 400, body = ''{"Success":false,"Result":"Invalid input"}''\<rparr>
       \<and> fst (serve (matchHandler K env) request s) =
           \<lparr>header = [(''Content-Type'', ''application/json'')], wroteHeader = True,
            status = 400, body = ''{"Success":false,"Result":"Invalid input"}''\<rparr>
       \<and> fst (getResults (FormValue request ''input'') function w) =
           (''{"Success":false,"Result":"Invalid input"}'', 400)\<close>
proof -
  obtain w1 where load: "LoadWords K (wordList env) (provider s) = (Inr words, w1)"
    using assms(2) by (cases "LoadWords K (wordList env) (provider s)") simp
  have bad: "FormValue request ''input'' = [] \<or> 13 < length (FormValue request ''input'')"
    using assms(1) by auto
  show ?thesis
    by (simp add: anagramHandler_loaded [OF load] matchHandler_loaded [OF load]
        getResults_invalid [OF bad])
qed

theorem invalid_input_is_bad_request_witness:
  \<open>fst (serve (anagramHandler counting_kowalski plain_env)
          (get_request ''/anagram?input=abcdefghijklmn'' ''abcdefghijklmn'') idle) =
           \<lparr>header = [(''Content-Type'', ''application/json'')], wroteHeader = True,
            status = 400, body = ''{"Success":false,"Result":"Invalid input"}''\<rparr>
       \<and> fst (serve (matchHandler counting_kowalski plain_env)
          (get_request ''/anagram?input=abcdefghijklmn'' ''abcdefghijklmn'') idle) =
           \<lparr>header = [(''Content-Type'', ''application/json'')], wroteHeader = True,
            status = 400, body = ''{"Success":false,"Result":"Invalid input"}''\<rparr>
       \<and> fst (getResults ''abcdefghijklmn'' (Anagrams counting_kowalski ()) (0::nat)) =
           (''{"Success":false,"Result":"Invalid input"}'', 400)\<close>
proof -
  have len: \<open>length (FormValue (get_request ''/anagram?input=abcdefghijklmn'' ''abcdefghijklmn'') ''input'') = 0
      \<or> 14 \<le> length (FormValue (get_request ''/anagram?input=abcdefghijklmn'' ''abcdefghijklmn'') ''input'')\<close>
    by (simp add: FormValue_get_request)
  have load: \<open>fst (LoadWords counting_kowalski (wordList plain_env) (provider idle)) = Inr ()\<close>
    by (simp add: counting_load_plain)
  show ?thesis
    using invalid_input_is_bad_request [OF len load, of "Anagrams counting_kowalski ()" 0]
    by (simp add: FormValue_get_request)
qed

text \<open>
  C1 as stated fails when the word list does not load: the empty input is then
  answered with 500 and the plain text of the load failure, not with 400.
\<close>

theorem empty_input_load_failure:
  \<open>length (FormValue (get_request ''/anagram?input='' []) ''input'') = 0
   \<and> status (fst (serve (anagramHandler counting_kowalski no_wordlist_env)
         (get_request ''/anagram?input='' []) idle)) = 500
   \<and> status (fst (serve (anagramHandler counting_kowalski no_wordlist_env)
         (get_request ''/anagram?input='' []) idle)) \<noteq> StatusBadRequest
   \<and> body (fst (serve (anagramHandler counting_kowalski no_wordlist_env)
         (get_request ''/anagram?input='' []) idle)) = ''Unable to load wordlist''\<close>
  by (simp add: anagramHandler_load_failed [OF counting_load_missing] FormValue_get_request
      StatusBadRequest_def)

section \<open>Valid input (C2)\<close>

text \<open>
  C2, as the handlers have it: a request whose \<^verbatim>\<open>input\<close> has length 1 to 13 is answered
  with status 200 and the encoding of \<^verbatim>\<open>OutputArray{len(result) > 0, result}\<close>, where
  \<^verbatim>\<open>result\<close> is what the lookup returned, provided the word list loads. An empty result
  is not an error: the body is \<^verbatim>\<open>{"Success":false,"Result":[]}\<close> for an empty slice and
  \<^verbatim>\<open>{"Success":false,"Result":null}\<close> for the nil slice. \<^verbatim>\<open>getResults\<close> itself returns
  that encoding and 200 for every such input.
\<close>

theorem valid_input_is_ok:
  assumes \<open>1 \<le> length (FormValue request ''input'')\<close>
    and \<open>length (FormValue request ''input'') \<le> 13\<close>
    and \<open>LoadWords K (wordList env) (provider s) = (Inr words, w1)\<close>
  shows \<open>fst (serve (anagramHandler K env) request s) =
           \<lparr>header = [(''Content-Type'', ''application/json'')], wroteHeader = True,
            status = 200,
            body = Marshal_OutputArray (OutputArray
              (0 < len (fst (Anagrams K words (FormValue request ''input'') w1)))
              (fst (Anagrams K words (FormValue request ''input'') w1)))\<rparr>
       \<and> fst (serve (matchHandler K env) request s) =
           \<lparr>header = [(''Content-Type'', ''application/json'')], wroteHeader = True,
            status = 200,
            body = Marshal_OutputArray (OutputArray
              (0 < len (fst (Match K words (FormValue request ''input'') w1)))
              (fst (Match K words (FormValue request ''input'') w1)))\<rparr>
       \<and> fst (getResults (FormValue request ''input'') function w) =
           (Marshal_OutputArray (OutputArray
              (0 < len (fst (function (FormValue request ''input'') w)))
              (fst (function (FormValue request ''input'') w))), 200)
       \<and> Marshal_OutputArray (OutputArray (0 < len (Some [])) (Some [])) =
           ''{"Success":false,"Result":[]}''
       \<and> Marshal_OutputArray (OutputArray (0 < len None) None) =
           ''{"Success":false,"Result":null}''\<close>
proof -
  have ne: "FormValue request ''input'' \<noteq> []"
    using assms(1) by auto
  have g: \<open>fst (getResults (FormValue request ''input'') function w) =
           (Marshal_OutputArray (OutputArray
              (0 < len (fst (function (FormValue request ''input'') w)))
              (fst (function (FormValue request ''input'') w))), 200)\<close>
    by (simp add: getResults_valid [OF ne assms(2)])
  have a: \<open>fst (serve (anagramHandler K env) request s) =
           \<lparr>header = [(''Content-Type'', ''application/json'')], wroteHeader = True,
            status = 200,
            body = Marshal_OutputArray (OutputArray
              (0 < len (fst (Anagrams K words (FormValue request ''input'') w1)))
              (fst (Anagrams K words (FormValue request ''input'') w1)))\<rparr>\<close>
    by (simp add: anagramHandler_loaded [OF assms(3)] getResults_valid [OF ne assms(2)])
  have m: \<open>fst (serve (matchHandler K env) request s) =
           \<lparr>header = [(''Content-Type'', ''application/json'')], wroteHeader = True,
            status = 200,
            body = Marshal_OutputArray (OutputArray
              (0 < len (fst (Match K words (FormValue request ''input'') w1)))
              (fst (Match K words (FormValue request ''input'') w1)))\<rparr>\<close>
    by (simp add: matchHandler_loaded [OF assms(3)] getResults_valid [OF ne assms(2)])
  have e: \<open>Marshal_OutputArray (OutputArray (0 < len (Some [])) (Some [])) =
           ''{"Success":false,"Result":[]}''\<close>
    by (simp add: Marshal_OutputArray_bytes len_def)
  have n: \<open>Marshal_OutputArray (OutputArray (0 < len None) None) =
           ''{"Success":false,"Result":null}''\<close>
    by (simp add: Marshal_OutputArray_bytes len_def)
  from a m g e n show ?thesis by (intro conjI)
qed

theorem valid_input_is_ok_witness:
  \<open>fst (serve (anagramHandler counting_kowalski plain_env)
          (get_request ''/anagram?input=listen'' ''listen'') idle) =
      \<lparr>header = [(''Content-Type'', ''application/json'')], wroteHeader = True,
       status = 200, body = ''{"Success":true,"Result":["silent","enlist"]}''\<rparr>
   \<and> fst (serve (matchHandler counting_kowalski plain_env)
          (get_request ''/anagram?input=listen'' ''listen'') idle) =
      \<lparr>header = [(''Content-Type'', ''application/json'')], wroteHeader = True,
       status = 200, body = ''{"Success":false,"Result":[]}''\<rparr>\<close>
proof -
  have h1: \<open>1 \<le> length (FormValue (get_request ''/anagram?input=listen'' ''listen'') ''input'')\<close>
    by (simp add: FormValue_get_request)
  have h2: \<open>length (FormValue (get_request ''/anagram?input=listen'' ''listen'') ''input'') \<le> 13\<close>
    by (simp add: FormValue_get_request)
  have enc: \<open>encodeString ''silent'' = ''"silent"''\<close> \<open>encodeString ''enlist'' = ''"enlist"''\<close>
    by (simp_all add: encodeString_def htmlSafe_def)
  have a: "fst (Anagrams counting_kowalski () ''listen'' (Suc 0)) = Some [''silent'', ''enlist'']"
    by (simp add: counting_kowalski_def)
  have m: "fst (Match counting_kowalski () ''listen'' (Suc 0)) = Some []"
    by (simp add: counting_kowalski_def)
  show ?thesis
    using valid_input_is_ok [OF h1 h2 counting_load_plain, of "Match counting_kowalski ()" 1]
    by (simp add: FormValue_get_request a m Marshal_OutputArray_bytes len_def enc)
qed

text \<open>
  C2 as stated fails on the empty result: a lookup that finds nothing and returns the
  nil slice is answered with status 200 and \<^verbatim>\<open>"Result":null\<close>, which is not an empty
  array.
\<close>

theorem no_candidates_is_null:
  \<open>length (FormValue (get_request ''/anagram?input=abc'' ''abc'') ''input'') = 3
   \<and> len (fst (Anagrams counting_kowalski () ''abc'' (1::nat))) = 0
   \<and> fst (serve (anagramHandler counting_kowalski plain_env)
          (get_request ''/anagram?input=abc'' ''abc'') idle) =
      \<lparr>header = [(''Content-Type'', ''application/json'')], wroteHeader = True,
       status = 200, body = ''{"Success":false,"Result":null}''\<rparr>
   \<and> body (fst (serve (anagramHandler counting_kowalski plain_env)
          (get_request ''/anagram?input=abc'' ''abc'') idle))
      \<noteq> ''{"Success":false,"Result":[]}''\<close>
proof -
  have nil: "fst (Anagrams counting_kowalski () ''abc'' (Suc 0)) = None"
    by (simp add: counting_kowalski_def)
  have r: \<open>fst (serve (anagramHandler counting_kowalski plain_env)
          (get_request ''/anagram?input=abc'' ''abc'') idle) =
      \<lparr>header = [(''Content-Type'', ''application/json'')], wroteHeader = True,
       status = 200, body = ''{"Success":false,"Result":null}''\<rparr>\<close>
    by (simp add: anagramHandler_loaded [OF counting_load_plain] FormValue_get_request
        getResults_valid nil Marshal_OutputArray_bytes len_def)
  show ?thesis
    unfolding r by (simp add: FormValue_get_request nil len_def)
qed

section \<open>Calls to the word data provider on invalid input (C3)\<close>

text \<open>
  C3, as the handlers have it: for an \<^verbatim>\<open>input\<close> of length 0 or at least 14 the lookup
  operation is never called, but the word list is loaded, once and before the input is
  validated. Whatever the provider is, its state after the request is its state after
  that one \<^verbatim>\<open>LoadWords\<close>; and \<^verbatim>\<open>getResults\<close> leaves the provider's state alone,
  whatever lookup function it is given.
\<close>

theorem invalid_input_provider_calls:
  assumes \<open>length (FormValue request ''input'') = 0 \<or> 14 \<le> length (FormValue request ''input'')\<close>
  shows \<open>provider (snd (serve (anagramHandler K env) request s)) =
            snd (LoadWords K (wordList env) (provider s))
       \<and> provider (snd (serve (matchHandler K env) request s)) =
            snd (LoadWords K (wordList env) (provider s))
       \<and> snd (getResults (FormValue request ''input'') function w) = w\<close>
proof -
  have bad: "FormValue request ''input'' = [] \<or> 13 < length (FormValue request ''input'')"
    using assms by auto
  obtain r w1 where load: "LoadWords K (wordList env) (provider s) = (r, w1)"
    by (cases "LoadWords K (wordList env) (provider s)")
  have "provider (snd (serve (anagramHandler K env) request s)) = w1
      \<and> provider (snd (serve (matchHandler K env) request s)) = w1"
  proof (cases r)
    case (Inl err)
    with load show ?thesis
      by (simp add: anagramHandler_load_failed matchHandler_load_failed)
  next
    case (Inr words)
    with load show ?thesis
      by (simp add: anagramHandler_loaded matchHandler_loaded getResults_invalid [OF bad])
  qed
  with load show ?thesis
    by (simp add: getResults_invalid [OF bad])
qed

theorem invalid_input_provider_calls_witness:
  \<open>provider (snd (serve (matchHandler counting_kowalski plain_env)
       (get_request ''/match?input=abcdefghijklmn'' ''abcdefghijklmn'') idle)) = 1
   \<and> snd (getResults ''abcdefghijklmn'' (Match counting_kowalski ()) (1::nat)) = 1\<close>
proof -
  have h: \<open>length (FormValue (get_request ''/match?input=abcdefghijklmn'' ''abcdefghijklmn'') ''input'') = 0
      \<or> 14 \<le> length (FormValue (get_request ''/match?input=abcdefghijklmn'' ''abcdefghijklmn'') ''input'')\<close>
    by (simp add: FormValue_get_request)
  show ?thesis
    using invalid_input_provider_calls [OF h, of counting_kowalski plain_env idle
        "Match counting_kowalski ()" 1]
    by (simp add: counting_load_plain FormValue_get_request)
qed

text \<open>
  C3 as stated fails: with the provider that counts its calls, the empty input leaves
  the counter at 1, not at 0. The call is the load of the word list.
\<close>

theorem invalid_input_still_loads:
  \<open>length (FormValue (get_request ''/anagram?input='' []) ''input'') = 0
   \<and> provider idle = 0
   \<and> provider (snd (serve (anagramHandler counting_kowalski plain_env)
        (get_request ''/anagram?input='' []) idle)) = 1\<close>
proof -
  have "provider idle = 0"
    by (simp add: idle_def)
  then show ?thesis
    by (simp add: anagramHandler_loaded [OF counting_load_plain] FormValue_get_request
        getResults_invalid)
qed

section \<open>A word list that does not load (C4)\<close>

text \<open>
  C4, as the handlers have it: when \<^verbatim>\<open>LoadWords\<close> fails, the request is answered with
  status 500 and the plain text \<^verbatim>\<open>Unable to load wordlist\<close> (no JSON object, and no
  content type set by the handler); the cause goes to the log, in one line
  \<^verbatim>\<open>Unable to load words: \<close> followed by the error, and nowhere else.
\<close>

theorem load_failure_is_500_plain_text:
  assumes \<open>LoadWords K (wordList env) (provider s) = (Inl err, w1)\<close>
  shows \<open>serve (anagramHandler K env) request s =
           (\<lparr>header = [], wroteHeader = True, status = 500, body = ''Unable to load wordlist''\<rparr>,
            s\<lparr>provider := w1, logged := logged s @ [''Unable to load words: '' @ err]\<rparr>)
       \<and> serve (matchHandler K env) request s =
           (\<lparr>header = [], wroteHeader = True, status = 500, body = ''Unable to load wordlist''\<rparr>,
            s\<lparr>provider := w1, logged := logged s @ [''Unable to load words: '' @ err]\<rparr>)\<close>
  by (simp add: anagramHandler_load_failed [OF assms] matchHandler_load_failed [OF assms])

theorem load_failure_is_500_plain_text_witness:
  \<open>serve (matchHandler counting_kowalski no_wordlist_env)
      (get_request ''/match?input=s?lent'' ''s?lent'') idle =
     (\<lparr>header = [], wroteHeader = True, status = 500, body = ''Unable to load wordlist''\<rparr>,
      \<lparr>templates = None,
       logged = [''Unable to load words: open /missing.txt: no such file or directory''],
       provider = 1, tasks = []\<rparr>)\<close>
  using load_failure_is_500_plain_text [OF counting_load_missing,
      of "get_request ''/match?input=s?lent'' ''s?lent''"]
  by (simp add: idle_def)

text \<open>
  C4 as stated fails on the body: it is not the encoding of
  \<^verbatim>\<open>OutputString{false, "Unable to load wordlist"}\<close>, and the handler has set no header.
\<close>

theorem load_failure_body_is_not_json:
  \<open>body (fst (serve (anagramHandler counting_kowalski no_wordlist_env)
      (get_request ''/anagram?input=abc'' ''abc'') idle)) = ''Unable to load wordlist''
   \<and> body (fst (serve (anagramHandler counting_kowalski no_wordlist_env)
      (get_request ''/anagram?input=abc'' ''abc'') idle))
      \<noteq> Marshal_OutputString (OutputString False ''Unable to load wordlist'')
   \<and> header (fst (serve (anagramHandler counting_kowalski no_wordlist_env)
      (get_request ''/anagram?input=abc'' ''abc'') idle)) = []\<close>
  by (simp add: anagramHandler_load_failed [OF counting_load_missing] Marshal_OutputString_def)

section \<open>Reloading the templates (C5)\<close>

lemma reloadTemplates_ok:
  "template_ParseFiles env fs (template_files env) = Inr t \<Longrightarrow>
     reloadTemplates env fs s = Inr (s\<lparr>templates := Some t\<rparr>)"
  by (simp add: reloadTemplates_def template_Must_def)

lemma reloadTemplates_panics:
  "template_ParseFiles env fs (template_files env) = Inl e \<Longrightarrow> reloadTemplates env fs s = Inl e"
  by (simp add: reloadTemplates_def template_Must_def)

lemma reloadTemplates_v2_ok:
  "template_ParseFiles env fs (template_files_v2 env) = Inr t \<Longrightarrow>
     reloadTemplates_v2 env fs s = Inr (s\<lparr>templates := Some t\<rparr>)"
  by (simp add: reloadTemplates_v2_def template_Must_def)

lemma reloadTemplates_v2_panics:
  "template_ParseFiles env fs (template_files_v2 env) = Inl e \<Longrightarrow>
     reloadTemplates_v2 env fs s = Inl e"
  by (simp add: reloadTemplates_v2_def template_Must_def)

lemma parse_three_files:
  "template_ParseFiles plain_env three_files (template_files plain_env) =
     Inr [''body {}'', ''<html></html>'', ''// js'']"
  by (simp add: plain_env_def template_files_def three_files_def parse_present_def
      List.map_filter_def)

lemma parse_no_index:
  "template_ParseFiles plain_env no_index (template_files plain_env) =
     Inl ''open /app/templates/index.html: no such file or directory''"
  by (simp add: plain_env_def template_files_def no_index_def parse_present_def)

lemma parse_three_files_v2:
  "template_ParseFiles plain_env three_files (template_files_v2 plain_env) =
     Inr [''<html></html>'']"
  by (simp add: plain_env_def template_files_v2_def three_files_def parse_present_def
      List.map_filter_def)

lemma parse_no_index_v2:
  "template_ParseFiles plain_env no_index (template_files_v2 plain_env) =
     Inl ''open /app/templates/index.html: no such file or directory''"
  by (simp add: plain_env_def template_files_v2_def no_index_def parse_present_def)

text \<open>
  C5, as the code has it: on a change event the reloader parses the template files
  again. When that succeeds the new set replaces the current one and the loop goes on.
  When it fails, \<^verbatim>\<open>template.Must\<close> panics: the global keeps the previous set, the
  program logs nothing, and the panic ends the reloader, and with it the process; the
  events that follow are not looked at. This holds for both programs.
\<close>

theorem reload_replaces_or_panics:
  \<open>(template_ParseFiles env fs (template_files env) = Inr t \<longrightarrow>
      templateReloader (reloadTemplates env) (Events_recv fs # rest) s =
        templateReloader (reloadTemplates env) rest (s\<lparr>templates := Some t\<rparr>))
   \<and> (template_ParseFiles env fs (template_files env) = Inl e \<longrightarrow>
      templateReloader (reloadTemplates env) (Events_recv fs # rest) s = (Panic e, s))
   \<and> (template_ParseFiles env fs (template_files_v2 env) = Inr t \<longrightarrow>
      templateReloader (reloadTemplates_v2 env) (Events_recv fs # rest) s =
        templateReloader (reloadTemplates_v2 env) rest (s\<lparr>templates := Some t\<rparr>))
   \<and> (template_ParseFiles env fs (template_files_v2 env) = Inl e \<longrightarrow>
      templateReloader (reloadTemplates_v2 env) (Events_recv fs # rest) s = (Panic e, s))\<close>
  by (simp add: reloadTemplates_ok reloadTemplates_panics reloadTemplates_v2_ok
      reloadTemplates_v2_panics)

theorem reload_replaces_or_panics_witness:
  \<open>templateReloader (reloadTemplates plain_env) [Events_recv three_files] idle =
      (Wait, idle\<lparr>templates := Some [''body {}'', ''<html></html>'', ''// js'']\<rparr>)
   \<and> templateReloader (reloadTemplates plain_env) [Events_recv no_index] idle =
      (Panic ''open /app/templates/index.html: no such file or directory'', idle)
   \<and> templateReloader (reloadTemplates_v2 plain_env) [Events_recv three_files] idle =
      (Wait, idle\<lparr>templates := Some [''<html></html>'']\<rparr>)
   \<and> templateReloader (reloadTemplates_v2 plain_env) [Events_recv no_index] idle =
      (Panic ''open /app/templates/index.html: no such file or directory'', idle)\<close>
  using reload_replaces_or_panics [of plain_env three_files
      "[''body {}'', ''<html></html>'', ''// js'']" "[]" idle e]
    reload_replaces_or_panics [of plain_env no_index t "[]" idle
      "''open /app/templates/index.html: no such file or directory''"]
    reload_replaces_or_panics [of plain_env three_files "[''<html></html>'']" "[]" idle e]
  by (simp add: parse_three_files parse_no_index parse_no_index_v2 parse_three_files_v2)

text \<open>
  C5 as stated fails: after a good reload, an event that finds \<^verbatim>\<open>index.html\<close> missing
  ends the process with exit status 2, and the good event after it is never handled.
\<close>

theorem failed_reload_ends_the_process:
  \<open>templateReloader (reloadTemplates plain_env)
      [Events_recv three_files, Events_recv no_index, Events_recv three_files]
      (idle\<lparr>templates := Some [''startup'']\<rparr>) =
     (Panic ''open /app/templates/index.html: no such file or directory'',
      idle\<lparr>templates := Some [''body {}'', ''<html></html>'', ''// js'']\<rparr>)
   \<and> exit_status (fst (templateReloader (reloadTemplates plain_env)
      [Events_recv three_files, Events_recv no_index, Events_recv three_files]
      (idle\<lparr>templates := Some [''startup'']\<rparr>))) = Some 2\<close>
  by (simp add: reloadTemplates_ok [OF parse_three_files] reloadTemplates_panics [OF parse_no_index])

section \<open>A watch that cannot be set up (C6)\<close>

lemma templateChanges_no_watcher:
  "fsnotify_NewWatcher env = Some err \<Longrightarrow>
     templateChanges env s = log_Print ''Unable to create watcher'' s"
  by (simp add: templateChanges_def)

lemma templateChanges_unwatchable:
  "fsnotify_NewWatcher env = None \<Longrightarrow>
   watcher_Add env (filepath_Join env [''./templates'']) = Some err \<Longrightarrow>
     templateChanges env s = go Reloader (log_Print ''Unable to watch template folder'' s)"
  by (simp add: templateChanges_def)

lemma templateChanges_watching:
  "fsnotify_NewWatcher env = None \<Longrightarrow>
   watcher_Add env (filepath_Join env [''./templates'']) = None \<Longrightarrow>
     templateChanges env s = go Reloader s"
  by (simp add: templateChanges_def)

text \<open>
  C6 at the input where the code departs from it. When the watcher cannot be created,
  \<^verbatim>\<open>templateChanges\<close> logs and returns, and no reloader is started. When the watcher
  exists but \<^verbatim>\<open>watcher.Add\<close> fails, it logs and then starts the reloader all the same:
  the branch has no \<^verbatim>\<open>return\<close>. The templates are untouched in both cases.
\<close>

theorem unwatchable_directory_starts_reloader:
  \<open>fsnotify_NewWatcher unwatchable_env = None
   \<and> watcher_Add unwatchable_env (filepath_Join unwatchable_env [''./templates'']) =
       Some ''no such file or directory''
   \<and> templateChanges unwatchable_env idle =
       \<lparr>templates = None, logged = [''Unable to watch template folder''], provider = 0,
        tasks = [Reloader]\<rparr>
   \<and> templateChanges no_watcher_env idle =
       \<lparr>templates = None, logged = [''Unable to create watcher''], provider = 0, tasks = []\<rparr>\<close>
proof -
  have w: "fsnotify_NewWatcher unwatchable_env = None"
    by (simp add: unwatchable_env_def plain_env_def)
  have a: "watcher_Add unwatchable_env (filepath_Join unwatchable_env [''./templates'']) =
      Some ''no such file or directory''"
    by (simp add: unwatchable_env_def)
  have n: "fsnotify_NewWatcher no_watcher_env = Some ''too many open files''"
    by (simp add: no_watcher_env_def)
  show ?thesis
    by (simp add: w a templateChanges_unwatchable [OF w a] templateChanges_no_watcher [OF n]
        go_def log_Print_def idle_def)
qed

section \<open>Signals and shutdown (C7)\<close>

lemma relayed_registered: "relayed [os_Interrupt, os_Kill] sig = (sig = SIGINT)"
  by (cases sig) (simp_all add: relayed_def os_Interrupt_def os_Kill_def)

lemma main_serving:
  "envflag_Parse env = None \<Longrightarrow> template_ParseFiles env fs (template_files env) = Inr t \<Longrightarrow>
     main env fs s =
       (case incoming_signal env of
          None \<Rightarrow>
            (Wait, go Listener (log_Print ''Starting server.''
               (templateChanges env (s\<lparr>templates := Some t\<rparr>))))
        | Some sig \<Rightarrow>
            if sig \<noteq> SIGINT then
              (Killed sig, go Listener (log_Print ''Starting server.''
                 (templateChanges env (s\<lparr>templates := Some t\<rparr>))))
            else
              (case server_Shutdown env (5 * time_Second) of
                 Some err \<Rightarrow>
                   (Exit 1, log_Print (''Unable to shutdown: '' @ err)
                      (go Listener (log_Print ''Starting server.''
                         (templateChanges env (s\<lparr>templates := Some t\<rparr>)))))
               | None \<Rightarrow>
                   (Return, log_Print ''Finishing server.''
                      (go Listener (log_Print ''Starting server.''
                         (templateChanges env (s\<lparr>templates := Some t\<rparr>)))))))"
  by (simp add: main_def reloadTemplates_ok Let_def relayed_registered split: option.splits)

lemma main_v2_serving:
  "envflag_Parse env = None \<Longrightarrow> \<not> download \<Longrightarrow>
   template_ParseFiles env fs (template_files_v2 env) = Inr t \<Longrightarrow>
     fst (main_v2 env download downloadFlags loadWords fs s) =
       (case incoming_signal env of
          None \<Rightarrow> Wait
        | Some sig \<Rightarrow>
            if sig \<noteq> SIGINT then Killed sig
            else (case server_Shutdown env (5 * time_Second) of
                    Some err \<Rightarrow> Exit 1
                  | None \<Rightarrow> Return))"
  by (simp add: main_v2_def reloadTemplates_v2_ok Let_def relayed_registered split: option.splits)

text \<open>
  After an interrupt the exit status of \<^verbatim>\<open>main\<close> is decided by the error of
  \<^verbatim>\<open>server.Shutdown\<close>, called with a timeout of five seconds: 1 through \<^verbatim>\<open>log.Fatalf\<close>
  when there is one, 0 otherwise. After any other signal \<^verbatim>\<open>Shutdown\<close> is not called.
\<close>

lemma main_exit_status_after_interrupt:
  "envflag_Parse env = None \<Longrightarrow> template_ParseFiles env fs (template_files env) = Inr t \<Longrightarrow>
   incoming_signal env = Some SIGINT \<Longrightarrow>
     exit_status (fst (main env fs s)) =
       Some (if server_Shutdown env (5000000000) = None then 0 else 1)"
  by (simp add: main_serving time_Second_def split: option.splits)

lemma main_killed_by_other_signal:
  "envflag_Parse env = None \<Longrightarrow> template_ParseFiles env fs (template_files env) = Inr t \<Longrightarrow>
   incoming_signal env = Some sig \<Longrightarrow> sig \<noteq> SIGINT \<Longrightarrow>
     main env fs s =
       (Killed sig, go Listener (log_Print ''Starting server.''
          (templateChanges env (s\<lparr>templates := Some t\<rparr>))))"
  by (simp add: main_serving)

lemma plain_env_settings:
  "envflag_Parse plain_env = None"
  "fsnotify_NewWatcher plain_env = None"
  "watcher_Add plain_env p = None"
  "incoming_signal plain_env = Some SIGINT"
  "server_Shutdown plain_env d = None"
  by (simp_all add: plain_env_def)

lemma templateChanges_plain:
  "templateChanges (plain_env\<lparr>incoming_signal := x\<rparr>) s = go Reloader s"
  "templateChanges (plain_env\<lparr>server_Shutdown := y\<rparr>) s = go Reloader s"
  by (simp_all add: templateChanges_def plain_env_def)

text \<open>
  C7 at the input where the code departs from it. After SIGINT both programs call
  \<^verbatim>\<open>Shutdown\<close> with a deadline of five seconds and end with status 0, or with status 1
  when \<^verbatim>\<open>Shutdown\<close> returns an error, as it does when the deadline passes. A
  termination signal is not handled that way: the programs register \<^verbatim>\<open>os.Interrupt\<close>
  and \<^verbatim>\<open>os.Kill\<close>, SIGKILL cannot be caught and SIGTERM is not registered, so either
  ends the process at once. \<^verbatim>\<open>Shutdown\<close> is not called, nothing is drained, the line
  \<^verbatim>\<open>Finishing server.\<close> is not logged, and the status is that of the signal.
\<close>

theorem termination_signal_kills_at_once:
  \<open>main sigterm_env three_files idle =
     (Killed SIGTERM,
      \<lparr>templates = Some [''body {}'', ''<html></html>'', ''// js''],
       logged = [''Starting server.''], provider = 0, tasks = [Reloader, Listener]\<rparr>)
   \<and> exit_status (fst (main sigterm_env three_files idle)) = Some 143
   \<and> fst (main_v2 sigterm_env False id counting_loadWords three_files idle) = Killed SIGTERM
   \<and> fst (main sigkill_env three_files idle) = Killed SIGKILL
   \<and> main plain_env three_files idle =
     (Return,
      \<lparr>templates = Some [''body {}'', ''<html></html>'', ''// js''],
       logged = [''Starting server.'', ''Finishing server.''], provider = 0,
       tasks = [Reloader, Listener]\<rparr>)
   \<and> exit_status (fst (main slow_drain_env three_files idle)) = Some 1\<close>
proof -
  have p1: "template_ParseFiles sigterm_env three_files (template_files sigterm_env) =
      Inr [''body {}'', ''<html></html>'', ''// js'']"
    using parse_three_files
    by (simp add: sigterm_env_def template_files_def)
  have p2: "template_ParseFiles sigterm_env three_files (template_files_v2 sigterm_env) =
      Inr [''<html></html>'']"
    using parse_three_files_v2
    by (simp add: sigterm_env_def template_files_v2_def)
  have p3: "template_ParseFiles sigkill_env three_files (template_files sigkill_env) =
      Inr [''body {}'', ''<html></html>'', ''// js'']"
    using parse_three_files
    by (simp add: sigkill_env_def template_files_def)
  have p4: "template_ParseFiles slow_drain_env three_files (template_files slow_drain_env) =
      Inr [''body {}'', ''<html></html>'', ''// js'']"
    using parse_three_files
    by (simp add: slow_drain_env_def template_files_def)
  have f: "envflag_Parse sigterm_env = None" "envflag_Parse sigkill_env = None"
    "envflag_Parse slow_drain_env = None"
    by (simp_all add: sigterm_env_def sigkill_env_def slow_drain_env_def plain_env_settings)
  have t1: \<open>main sigterm_env three_files idle =
     (Killed SIGTERM,
      \<lparr>templates = Some [''body {}'', ''<html></html>'', ''// js''],
       logged = [''Starting server.''], provider = 0, tasks = [Reloader, Listener]\<rparr>)\<close>
    by (simp add: main_serving [OF f(1) p1])
      (simp add: sigterm_env_def templateChanges_plain go_def log_Print_def idle_def)
  have t2: \<open>fst (main_v2 sigterm_env False id counting_loadWords three_files idle) =
      Killed SIGTERM\<close>
    by (simp add: main_v2_serving [OF f(1) _ p2]) (simp add: sigterm_env_def)
  have kill: \<open>fst (main sigkill_env three_files idle) = Killed SIGKILL\<close>
    by (simp add: main_serving [OF f(2) p3]) (simp add: sigkill_env_def)
  have intr: \<open>main plain_env three_files idle =
     (Return,
      \<lparr>templates = Some [''body {}'', ''<html></html>'', ''// js''],
       logged = [''Starting server.'', ''Finishing server.''], provider = 0,
       tasks = [Reloader, Listener]\<rparr>)\<close>
    by (simp add: main_serving [OF plain_env_settings(1) parse_three_files] plain_env_settings)
      (simp add: templateChanges_watching plain_env_settings go_def log_Print_def idle_def)
  have slow: \<open>exit_status (fst (main slow_drain_env three_files idle)) = Some 1\<close>
    by (simp add: main_serving [OF f(3) p4])
      (simp add: slow_drain_env_def plain_env_settings time_Second_def)
  from t1 t2 kill intr slow show ?thesis
    by simp
qed

section \<open>Startup (C8)\<close>

text \<open>
  C8: when the flags parse and the first parse of the templates fails, \<^verbatim>\<open>main\<close> ends
  in the panic of \<^verbatim>\<open>template.Must\<close> (exit status 2) before \<^verbatim>\<open>templateChanges\<close> and
  before the listener: no goroutine has been started, nothing says
  \<^verbatim>\<open>Starting server.\<close>, and the templates are as they were. This holds for both
  programs; \<^verbatim>\<open>main.go\<close> has loaded the words and logged two lines by then.
\<close>

theorem startup_parse_failure_aborts:
  \<open>(envflag_Parse env = None \<and> template_ParseFiles env fs (template_files env) = Inl e \<longrightarrow>
      main env fs s = (Panic e, s) \<and> exit_status (fst (main env fs s)) = Some 2)
   \<and> (envflag_Parse env = None \<and> \<not> download
        \<and> template_ParseFiles env fs (template_files_v2 env) = Inl e \<longrightarrow>
      fst (main_v2 env download downloadFlags loadWords fs s) = Panic e
      \<and> tasks (snd (main_v2 env download downloadFlags loadWords fs s)) = tasks s
      \<and> templates (snd (main_v2 env download downloadFlags loadWords fs s)) = templates s
      \<and> logged (snd (main_v2 env download downloadFlags loadWords fs s)) =
          logged s @ [''Loading wordlist.'', ''Loading templates.''])\<close>
proof -
  have v1: "main env fs s = (Panic e, s) \<and> exit_status (fst (main env fs s)) = Some 2"
    if "envflag_Parse env = None" and "template_ParseFiles env fs (template_files env) = Inl e"
    using that by (simp add: main_def reloadTemplates_panics)
  have v2: "fst (main_v2 env download downloadFlags loadWords fs s) = Panic e
      \<and> tasks (snd (main_v2 env download downloadFlags loadWords fs s)) = tasks s
      \<and> templates (snd (main_v2 env download downloadFlags loadWords fs s)) = templates s
      \<and> logged (snd (main_v2 env download downloadFlags loadWords fs s)) =
          logged s @ [''Loading wordlist.'', ''Loading templates.'']"
    if "envflag_Parse env = None" and "\<not> download"
      and "template_ParseFiles env fs (template_files_v2 env) = Inl e"
    using that by (simp add: main_v2_def Let_def reloadTemplates_v2_panics log_Print_def)
  from v1 v2 show ?thesis
    by blast
qed

theorem startup_parse_failure_aborts_witness:
  \<open>main plain_env no_index idle =
     (Panic ''open /app/templates/index.html: no such file or directory'', idle)
   \<and> fst (main_v2 plain_env False id counting_loadWords no_index idle) =
     Panic ''open /app/templates/index.html: no such file or directory''
   \<and> tasks (snd (main_v2 plain_env False id counting_loadWords no_index idle)) = []\<close>
proof -
  have flags: "envflag_Parse plain_env = None"
    by (simp add: plain_env_def)
  have "tasks idle = []"
    by (simp add: idle_def)
  then show ?thesis
    using startup_parse_failure_aborts [of plain_env no_index
        "''open /app/templates/index.html: no such file or directory''" idle False id
        counting_loadWords]
      flags parse_no_index parse_no_index_v2
    by simp
qed

section \<open>The access log (C9)\<close>

text \<open>
  C9: whatever handler \<^verbatim>\<open>requestLogger\<close> wraps (the server gives it the mux, so every
  path), and whatever the request, the wrapped handler runs first, the response is the
  handler's, and then exactly one line is added to the log. The line holds the remote
  address, the method and the request URI. This holds for the formats of both programs.
\<close>

theorem every_request_logged_once:
  \<open>fst (requestLogger targetMux w r s) = fst (targetMux w r s)
   \<and> logged (snd (requestLogger targetMux w r s)) =
       logged (snd (targetMux w r s)) @
         [RemoteAddr r @ [tab, tab] @ Method r @ [tab, tab] @ RequestURI r @ [tab]]
   \<and> sublist (RemoteAddr r) (last (logged (snd (requestLogger targetMux w r s))))
   \<and> sublist (Method r) (last (logged (snd (requestLogger targetMux w r s))))
   \<and> sublist (RequestURI r) (last (logged (snd (requestLogger targetMux w r s))))
   \<and> fst (requestLogger_v2 targetMux w r s) = fst (targetMux w r s)
   \<and> logged (snd (requestLogger_v2 targetMux w r s)) =
       logged (snd (targetMux w r s)) @
         [RemoteAddr r @ ''  '' @ [tab] @ Method r @ ''  '' @ [tab] @ RequestURI r]
   \<and> sublist (RemoteAddr r) (last (logged (snd (requestLogger_v2 targetMux w r s))))
   \<and> sublist (Method r) (last (logged (snd (requestLogger_v2 targetMux w r s))))
   \<and> sublist (RequestURI r) (last (logged (snd (requestLogger_v2 targetMux w r s))))\<close>
proof -
  have l1: \<open>logged (snd (requestLogger targetMux w r s)) =
       logged (snd (targetMux w r s)) @
         [RemoteAddr r @ [tab, tab] @ Method r @ [tab, tab] @ RequestURI r @ [tab]]\<close>
    by (simp add: requestLogger_def log_Print_def split: prod.splits)
  have l2: \<open>logged (snd (requestLogger_v2 targetMux w r s)) =
       logged (snd (targetMux w r s)) @
         [RemoteAddr r @ ''  '' @ [tab] @ Method r @ ''  '' @ [tab] @ RequestURI r]\<close>
    by (simp add: requestLogger_v2_def log_Print_def split: prod.splits)
  have f1: \<open>fst (requestLogger targetMux w r s) = fst (targetMux w r s)\<close>
    by (simp add: requestLogger_def split: prod.splits)
  have f2: \<open>fst (requestLogger_v2 targetMux w r s) = fst (targetMux w r s)\<close>
    by (simp add: requestLogger_v2_def split: prod.splits)
  have a1: \<open>sublist (RemoteAddr r)
      (RemoteAddr r @ [tab, tab] @ Method r @ [tab, tab] @ RequestURI r @ [tab])\<close>
    using sublist_appendI [of "RemoteAddr r" "[]"] by simp
  have m1: \<open>sublist (Method r)
      (RemoteAddr r @ [tab, tab] @ Method r @ [tab, tab] @ RequestURI r @ [tab])\<close>
    using sublist_appendI [of "Method r" "RemoteAddr r @ [tab, tab]"] by simp
  have u1: \<open>sublist (RequestURI r)
      (RemoteAddr r @ [tab, tab] @ Method r @ [tab, tab] @ RequestURI r @ [tab])\<close>
    using sublist_appendI [of "RequestURI r" "RemoteAddr r @ [tab, tab] @ Method r @ [tab, tab]"]
    by simp
  have a2: \<open>sublist (RemoteAddr r)
      (RemoteAddr r @ ''  '' @ [tab] @ Method r @ ''  '' @ [tab] @ RequestURI r)\<close>
    using sublist_appendI [of "RemoteAddr r" "[]"] by simp
  have m2: \<open>sublist (Method r)
      (RemoteAddr r @ ''  '' @ [tab] @ Method r @ ''  '' @ [tab] @ RequestURI r)\<close>
    using sublist_appendI [of "Method r" "RemoteAddr r @ ''  '' @ [tab]"] by simp
  have u2: \<open>sublist (RequestURI r)
      (RemoteAddr r @ ''  '' @ [tab] @ Method r @ ''  '' @ [tab] @ RequestURI r)\<close>
    using sublist_appendI
      [of "RequestURI r" "RemoteAddr r @ ''  '' @ [tab] @ Method r @ ''  '' @ [tab]" "[]"]
    by simp
  show ?thesis
    unfolding l1 l2 f1 f2 last_snoc
    using a1 m1 u1 a2 m2 u2 by (intro conjI) simp_all
qed

section \<open>getResults returns, and what it returns (C10)\<close>

lemma Marshal_OutputArray_object:
  "\<exists>members. Marshal_OutputArray v = encode (JObject members)"
  by (cases v) (simp add: Marshal_OutputArray_def del: encode.simps, blast)

lemma Marshal_OutputString_object:
  "\<exists>members. Marshal_OutputString v = encode (JObject members)"
  by (cases v) (simp add: Marshal_OutputString_def del: encode.simps, blast)

lemma Marshal_OutputArray_nonempty: "Marshal_OutputArray v \<noteq> []"
  using Marshal_OutputArray_object [of v] encode_object_nonempty by auto

lemma getResults_func_invalid:
  \<open>input = [] \<or> 13 < length input \<Longrightarrow>
     getResults_func input fn w =
       (Inr (''{"Success":false,"Result":"Invalid input"}'', 400), w)\<close>
  by (simp add: getResults_func_def Marshal_invalid_input StatusBadRequest_def)

lemma getResults_func_returns:
  "input \<noteq> [] \<Longrightarrow> length input \<le> 13 \<Longrightarrow> f input w = (Inr result, w') \<Longrightarrow>
     getResults_func input (func f) w =
       (Inr (Marshal_OutputArray (OutputArray (0 < len result) result), 200), w')"
  by (simp add: getResults_func_def StatusOK_def)

lemma getResults_func_panics:
  "input \<noteq> [] \<Longrightarrow> length input \<le> 13 \<Longrightarrow> f input w = (Inl p, w') \<Longrightarrow>
     getResults_func input (func f) w = (Inl p, w')"
  by (simp add: getResults_func_def)

lemma getResults_func_nil:
  "input \<noteq> [] \<Longrightarrow> length input \<le> 13 \<Longrightarrow>
     getResults_func input nil_func w =
       (Inl ''invalid memory address or nil pointer dereference'', w)"
  by (simp add: getResults_func_def)

lemma getResults_func_returning:
  "getResults_func input (returning g) w =
     (Inr (fst (getResults input g w)), snd (getResults input g w))"
  by (simp add: getResults_func_def getResults_def returning_def split: prod.splits)

lemma getResults_func_output:
  assumes "fst (getResults_func input fn w) = Inr (out, st)"
  shows "out \<noteq> [] \<and> (\<exists>members. out = encode (JObject members))
     \<and> st = (if input = [] \<or> 13 < length input then 400 else 200)"
proof (cases "input = [] \<or> 13 < length input")
  case True
  with assms have "out = Marshal_OutputString (OutputString False ''Invalid input'')"
    and "st = 400"
    by (simp_all add: getResults_func_def StatusBadRequest_def)
  with True show ?thesis
    using Marshal_OutputString_object [of "OutputString False ''Invalid input''"]
      encode_object_nonempty
    by auto
next
  case False
  with assms obtain b r where "out = Marshal_OutputArray (OutputArray b r)" and "st = 200"
    by (auto simp: getResults_func_def StatusOK_def
        split: func.splits prod.splits sum.splits)
  with False show ?thesis
    using Marshal_OutputArray_object [of "OutputArray b r"] Marshal_OutputArray_nonempty
    by auto
qed

text \<open>
  C10, as the code has it. \<^verbatim>\<open>getResults\<close> returns on every invalid input, whatever
  the lookup function is, and on a valid input exactly when the call of the lookup
  function returns: a nil function or a call that panics makes \<^verbatim>\<open>getResults\<close> panic.
  Whenever it returns, the output is the encoding of a JSON object (so not empty) and
  the status is 400 for an input that is empty or longer than 13 bytes and 200
  otherwise. Output and status depend on the input and on the sequence that the
  lookup returns, and on nothing else: two calls agree when the lookup returns the
  same sequence in both, as a lookup without side effects does, whatever the state of
  the provider at each call.
\<close>

theorem getResults_returns_and_is_determined:
  \<open>(input = [] \<or> 13 < length input \<longrightarrow>
      fst (getResults_func input fn w) =
        Inr (''{"Success":false,"Result":"Invalid input"}'', 400))
   \<and> (input \<noteq> [] \<and> length input \<le> 13 \<and> f input w = (Inr result, w') \<longrightarrow>
      fst (getResults_func input (func f) w) =
        Inr (Marshal_OutputArray (OutputArray (0 < len result) result), 200))
   \<and> (input \<noteq> [] \<and> length input \<le> 13 \<and> f input w = (Inl p, w') \<longrightarrow>
      fst (getResults_func input (func f) w) = Inl p)
   \<and> (input \<noteq> [] \<and> length input \<le> 13 \<longrightarrow>
      fst (getResults_func input nil_func w) =
        Inl ''invalid memory address or nil pointer dereference'')
   \<and> (fst (getResults_func input fn w) = Inr (out, st) \<longrightarrow>
      out \<noteq> [] \<and> (\<exists>members. out = encode (JObject members))
      \<and> st = (if input = [] \<or> 13 < length input then 400 else 200))
   \<and> getResults_func input (returning g) w =
        (Inr (fst (getResults input g w)), snd (getResults input g w))
   \<and> (fst (g input w) = fst (g' input v) \<longrightarrow>
        fst (getResults input g w) = fst (getResults input g' v))
   \<and> fst (getResults input (\<lambda>i u. (h i, u)) w) = fst (getResults input (\<lambda>i u. (h i, u)) v)\<close>
proof -
  have same: "fst (getResults input g w) = fst (getResults input g' v)"
    if "fst (g input w) = fst (g' input v)"
  proof (cases "input = [] \<or> 13 < length input")
    case True
    then show ?thesis
      by (simp add: getResults_invalid)
  next
    case False
    then have "input \<noteq> []" and "length input \<le> 13"
      by auto
    with that show ?thesis
      by (simp add: getResults_valid)
  qed
  have pure: "fst (getResults input (\<lambda>i u. (h i, u)) w) =
      fst (getResults input (\<lambda>i u. (h i, u)) v)"
    by (simp add: getResults_def)
  show ?thesis
    using getResults_func_output [of input fn w out st] same pure
    by (simp add: getResults_func_invalid getResults_func_returns getResults_func_panics
        getResults_func_nil getResults_func_returning)
qed

theorem getResults_returns_and_is_determined_witness:
  \<open>fst (getResults_func ''abcdefghijklmn'' nil_func (0::nat)) =
      Inr (''{"Success":false,"Result":"Invalid input"}'', 400)
   \<and> fst (getResults_func ''listen'' (returning (Anagrams counting_kowalski ())) (0::nat)) =
      Inr (''{"Success":true,"Result":["silent","enlist"]}'', 200)
   \<and> fst (getResults ''listen'' (Anagrams counting_kowalski ()) (0::nat)) =
      fst (getResults ''listen'' (Anagrams counting_kowalski ()) (5::nat))\<close>
proof -
  note inst = getResults_returns_and_is_determined
      [of "''listen''" "returning (Anagrams counting_kowalski ())" 0
        "\<lambda>input w. (Inr (fst (Anagrams counting_kowalski () input w)),
           snd (Anagrams counting_kowalski () input w))"
        "Some [''silent'', ''enlist'']" 1 p out st
        "Anagrams counting_kowalski ()" "Anagrams counting_kowalski ()" 5 h]
  note bad = getResults_returns_and_is_determined
      [of "''abcdefghijklmn''" nil_func 0 f result w' p out st g g' v h]
  have call: "(\<lambda>input w. (Inr (fst (Anagrams counting_kowalski () input w)),
           snd (Anagrams counting_kowalski () input w))) ''listen'' (0::nat) =
      (Inr (Some [''silent'', ''enlist'']), 1)"
    by (simp add: counting_kowalski_def)
  have same: "fst (Anagrams counting_kowalski () ''listen'' (0::nat)) =
      fst (Anagrams counting_kowalski () ''listen'' (5::nat))"
    by (simp add: counting_kowalski_def)
  have enc: \<open>Marshal_OutputArray
      (OutputArray (0 < len (Some [''silent'', ''enlist''])) (Some [''silent'', ''enlist''])) =
      ''{"Success":true,"Result":["silent","enlist"]}''\<close>
    by (simp add: Marshal_OutputArray_bytes len_def encodeString_def htmlSafe_def)
  have long: "''abcdefghijklmn'' = [] \<or> 13 < length ''abcdefghijklmn''"
    by simp
  from conjunct1 [OF bad] long
  have c1: \<open>fst (getResults_func ''abcdefghijklmn'' nil_func (0::nat)) =
      Inr (''{"Success":false,"Result":"Invalid input"}'', 400)\<close>
    by blast
  have short: "''listen'' \<noteq> [] \<and> length ''listen'' \<le> 13"
    by simp
  from conjunct1 [OF conjunct2 [OF inst]] short call
  have \<open>fst (getResults_func ''listen''
      (func (\<lambda>input w. (Inr (fst (Anagrams counting_kowalski () input w)),
           snd (Anagrams counting_kowalski () input w)))) (0::nat)) =
      Inr (Marshal_OutputArray
        (OutputArray (0 < len (Some [''silent'', ''enlist''])) (Some [''silent'', ''enlist''])),
        200)\<close>
    by blast
  then have c2: \<open>fst (getResults_func ''listen'' (returning (Anagrams counting_kowalski ()))
      (0::nat)) = Inr (''{"Success":true,"Result":["silent","enlist"]}'', 200)\<close>
    by (simp only: enc returning_def)
  from inst same have c3: \<open>fst (getResults ''listen'' (Anagrams counting_kowalski ()) (0::nat)) =
      fst (getResults ''listen'' (Anagrams counting_kowalski ()) (5::nat))\<close>
    by blast
  from c1 c2 c3 show ?thesis
    by (intro conjI)
qed

text \<open>
  C10 as stated fails twice. With a lookup whose answer depends on the provider's
  state, two calls of \<^verbatim>\<open>getResults\<close> with the same input and the same lookup function,
  one after the other, give different bytes. And with the nil function a valid input
  gives no output and no status: \<^verbatim>\<open>getResults\<close> panics.
\<close>

theorem same_lookup_different_bytes:
  \<open>getResults ''ab'' flip_lookup 0 = ((''{"Success":true,"Result":["ab"]}'', 200), 1)
   \<and> getResults ''ab'' flip_lookup 1 = ((''{"Success":false,"Result":null}'', 200), 2)
   \<and> fst (getResults ''ab'' flip_lookup 0) \<noteq>
       fst (getResults ''ab'' flip_lookup (snd (getResults ''ab'' flip_lookup 0)))
   \<and> fst (getResults_func ''ab'' nil_func (0::nat)) =
       Inl ''invalid memory address or nil pointer dereference''\<close>
proof -
  have enc: \<open>encodeString ''ab'' = ''"ab"''\<close>
    by (simp add: encodeString_def htmlSafe_def)
  have a: \<open>getResults ''ab'' flip_lookup 0 = ((''{"Success":true,"Result":["ab"]}'', 200), 1)\<close>
    by (simp add: getResults_valid flip_lookup_def Marshal_OutputArray_bytes len_def enc)
  have b: \<open>getResults ''ab'' flip_lookup 1 = ((''{"Success":false,"Result":null}'', 200), 2)\<close>
    by (simp add: getResults_valid flip_lookup_def Marshal_OutputArray_bytes len_def)
  have c: \<open>fst (getResults_func ''ab'' nil_func (0::nat)) =
       Inl ''invalid memory address or nil pointer dereference''\<close>
    by (simp add: getResults_func_nil)
  have d: \<open>fst (getResults ''ab'' flip_lookup 0) \<noteq>
       fst (getResults ''ab'' flip_lookup (snd (getResults ''ab'' flip_lookup 0)))\<close>
    unfolding a snd_conv b fst_conv by simp
  from a b d c show ?thesis
    by (intro conjI)
qed

end
